theory Spec2Isabelle
  imports Complex_Main
begin

section \<open>PhysicsKit vehicle dynamics core: shallow embedding\<close>

text \<open>
  The embedding follows the Python sources under \<^verbatim>\<open>physicskit/\<close>. Conventions:

  \<^item> a Python \<^verbatim>\<open>float\<close> is a \<^typ>\<open>real\<close>: arithmetic is exact, there is no rounding, no
    overflow, no NaN and no negative zero (so \<^verbatim>\<open>math.copysign(m, s)\<close> takes the sign of
    \<open>s\<close> with zero counted as positive);
  \<^item> a dataclass or a class with attributes is a record, an \<^verbatim>\<open>Enum\<close> a datatype;
  \<^item> a method that mutates \<^verbatim>\<open>self\<close> returns the updated record;
  \<^item> an unguarded float division raises \<^verbatim>\<open>ZeroDivisionError\<close> in Python when the
    divisor is zero: such functions return \<open>py_error + 'a\<close>, with \<open>Inl\<close> the error;
  \<^item> a \<^verbatim>\<open>while\<close> loop is a recursive function with a termination proof.
\<close>

datatype py_error = ZeroDivisionError

text \<open>
  Float division, and sequencing of calls that may raise: the first error ends the
  computation, as the exception would.
\<close>

definition py_div :: "real \<Rightarrow> real \<Rightarrow> py_error + real" where
  "py_div a b = (if b = 0 then Inl ZeroDivisionError else Inr (a / b))"

definition py_bind :: "py_error + 'a \<Rightarrow> ('a \<Rightarrow> py_error + 'b) \<Rightarrow> py_error + 'b" where
  "py_bind r f = (case r of Inl e \<Rightarrow> Inl e | Inr v \<Rightarrow> f v)"

text \<open>\<^verbatim>\<open>math.copysign(m, s)\<close>: the magnitude of \<open>m\<close> with the sign of \<open>s\<close>.\<close>

definition copysign :: "real \<Rightarrow> real \<Rightarrow> real" where
  "copysign m s = (if s < 0 then - \<bar>m\<bar> else \<bar>m\<bar>)"



text \<open>
  A list of results of calls made in order (a list comprehension): the first error, or
  all the values.
\<close>

fun collect :: "(py_error + 'a) list \<Rightarrow> py_error + 'a list" where
  "collect [] = Inr []"
| "collect (r # rs) = py_bind r (\<lambda>v. py_bind (collect rs) (\<lambda>vs. Inr (v # vs)))"

text \<open>
  \<^verbatim>\<open>np.linspace(start, stop, num)\<close> for \<open>num \<ge> 2\<close>, and \<^verbatim>\<open>np.argmax\<close>: the first index
  of the largest entry.
\<close>

definition linspace :: "real \<Rightarrow> real \<Rightarrow> nat \<Rightarrow> real list" where
  "linspace start stop num =
     map (\<lambda>i. start + real i * ((stop - start) / real (num - 1))) [0..<num]"



subsection \<open>vehicle/steering.py\<close>

record steering_config =
  max_steer_angle :: real
  steering_ratio :: real
  ackermann_factor :: real
  wheelbase :: real
  track_width :: real
  steering_rate :: real
  steering_smoothing :: real

text \<open>The dataclass defaults of \<^verbatim>\<open>SteeringConfig\<close>.\<close>

definition SteeringConfig :: steering_config where
  "SteeringConfig =
     \<lparr>max_steer_angle = 6 / 10, steering_ratio = 15, ackermann_factor = 8 / 10,
      wheelbase = 27 / 10, track_width = 15 / 10, steering_rate = 3,
      steering_smoothing = 0\<rparr>"

record steering =
  config :: steering_config
  current_input :: real
  target_input :: real

definition Steering :: "steering_config \<Rightarrow> steering" where
  "Steering cfg = \<lparr>config = cfg, current_input = 0, target_input = 0\<rparr>"

text \<open>
  \<^verbatim>\<open>Steering.get_wheel_angles(steer_input=None)\<close>, returning \<open>(left_angle, right_angle)\<close>.
  The linear branch divides by \<open>2 * track_width\<close> outside the \<^verbatim>\<open>try\<close>; in the geometric
  branch a \<^verbatim>\<open>ZeroDivisionError\<close> is caught and the wheels fall back to the parallel
  angle. (Where the cosine vanishes, \<open>tan\<close> is 0 in HOL, so such an angle takes the
  fallback too; no float is such an angle.)
\<close>

definition get_wheel_angles :: "steering \<Rightarrow> real option \<Rightarrow> py_error + real \<times> real" where
  "get_wheel_angles s steer_input_arg =
     (let steer_input = (case steer_input_arg of None \<Rightarrow> current_input s | Some u \<Rightarrow> u);
          cfg = config s;
          base_angle = steer_input * max_steer_angle cfg
      in
      if \<bar>base_angle\<bar> < 1 / 1000 then Inr (0, 0)
      else if ackermann_factor cfg < 1 / 1000 then Inr (base_angle, base_angle)
      else if \<bar>base_angle\<bar> < 1 / 10 then
        py_bind (py_div (wheelbase cfg * base_angle) (2 * track_width cfg)) (\<lambda>q.
          let ackermann_correction = q * ackermann_factor cfg;
              left_angle = base_angle + ackermann_correction;
              right_angle = base_angle - ackermann_correction
          in Inr (left_angle, right_angle))
      else
        (case py_div (wheelbase cfg) (tan \<bar>base_angle\<bar>) of
           Inl e \<Rightarrow> Inr (base_angle, base_angle)
         | Inr R \<Rightarrow>
             (let R_inner = R - track_width cfg / 2;
                  R_outer = R + track_width cfg / 2
              in
              case py_div (wheelbase cfg) R_inner of
                Inl e \<Rightarrow> Inr (base_angle, base_angle)
              | Inr q_inner \<Rightarrow>
                  (case py_div (wheelbase cfg) R_outer of
                     Inl e \<Rightarrow> Inr (base_angle, base_angle)
                   | Inr q_outer \<Rightarrow>
                       (let angle_inner = arctan q_inner;
                            angle_outer = arctan q_outer;
                            factor = ackermann_factor cfg
                        in
                        if base_angle > 0 then
                          (let left_angle = \<bar>base_angle\<bar> * (1 - factor) + angle_outer * factor;
                               right_angle = \<bar>base_angle\<bar> * (1 - factor) + angle_inner * factor
                           in Inr (copysign left_angle base_angle,
                                   copysign right_angle base_angle))
                        else
                          (let right_angle = \<bar>base_angle\<bar> * (1 - factor) + angle_outer * factor;
                               left_angle = \<bar>base_angle\<bar> * (1 - factor) + angle_inner * factor
                           in Inr (copysign left_angle base_angle,
                                   copysign right_angle base_angle)))))))"

subsection \<open>vehicle/drivetrain.py\<close>

datatype differential_type = OPEN | LOCKED | LSD

datatype drive_type = RWD | FWD | AWD

record drivetrain_config =
  drive_type :: drive_type
  differential :: differential_type
  max_torque :: real
  max_rpm :: real
  idle_rpm :: real
  gear_ratio :: real
  efficiency :: real
  lsd_preload :: real
  lsd_power_ratio :: real
  lsd_coast_ratio :: real
  wheel_inertia :: real
  max_brake_torque :: real
  brake_bias :: real

text \<open>The dataclass defaults of \<^verbatim>\<open>DrivetrainConfig\<close>.\<close>

definition DrivetrainConfig :: drivetrain_config where
  "DrivetrainConfig =
     \<lparr>drive_type = RWD, differential = OPEN, max_torque = 400, max_rpm = 7000,
      idle_rpm = 800, gear_ratio = 35 / 10, efficiency = 9 / 10, lsd_preload = 100,
      lsd_power_ratio = 3 / 10, lsd_coast_ratio = 1 / 10, wheel_inertia = 1,
      max_brake_torque = 3000, brake_bias = 65 / 100\<rparr>"

record drivetrain =
  config :: drivetrain_config
  engine_rpm :: real
  throttle :: real

text \<open>\<^verbatim>\<open>Drivetrain.__init__\<close>: the engine starts at idle with a closed throttle.\<close>

definition Drivetrain :: "drivetrain_config \<Rightarrow> drivetrain" where
  "Drivetrain cfg = \<lparr>config = cfg, engine_rpm = idle_rpm cfg, throttle = 0\<rparr>"

text \<open>
  \<^verbatim>\<open>get_engine_torque(throttle=None)\<close>. The division \<^verbatim>\<open>engine_rpm / max_rpm\<close> is not
  guarded.
\<close>

definition get_engine_torque :: "drivetrain \<Rightarrow> real option \<Rightarrow> py_error + real" where
  "get_engine_torque d throttle_arg =
     (let thr = (case throttle_arg of None \<Rightarrow> throttle d | Some t \<Rightarrow> t) in
      if max_rpm (config d) = 0 then Inl ZeroDivisionError
      else
        let rpm_fraction = engine_rpm d / max_rpm (config d);
            rpm_fraction = max (1 / 10) (min 1 rpm_fraction);
            torque_mult =
              (if rpm_fraction < 3 / 10 then 6 / 10 + (rpm_fraction / (3 / 10)) * (4 / 10)
               else if rpm_fraction < 8 / 10 then 1
               else 1 - (rpm_fraction - 8 / 10) / (2 / 10) * (3 / 10))
        in Inr (thr * max_torque (config d) * torque_mult))"

definition calculate_lsd_torques :: "drivetrain \<Rightarrow> real \<Rightarrow> real \<Rightarrow> real \<Rightarrow> real \<times> real" where
  "calculate_lsd_torques d axle_torque omega_L omega_R =
     (let delta_omega = omega_R - omega_L;
          lock_ratio = (if axle_torque > 0 then lsd_power_ratio (config d)
                        else lsd_coast_ratio (config d));
          locking_torque = lsd_preload (config d) + \<bar>axle_torque\<bar> * lock_ratio;
          T_base = axle_torque / 2
      in if \<bar>delta_omega\<bar> > 1 / 10 then
           (let transfer = min locking_torque \<bar>T_base\<bar> in
            if delta_omega > 0
            then (T_base + transfer * lock_ratio, T_base - transfer * lock_ratio)
            else (T_base - transfer * lock_ratio, T_base + transfer * lock_ratio))
         else (T_base, T_base))"

definition get_drive_torques ::
  "drivetrain \<Rightarrow> real \<Rightarrow> real \<times> real \<Rightarrow> py_error + real \<times> real" where
  "get_drive_torques d thr wheel_speeds =
     (case get_engine_torque d (Some thr) of
        Inl e \<Rightarrow> Inl e
      | Inr engine_torque \<Rightarrow>
          (let axle_torque = engine_torque * gear_ratio (config d) * efficiency (config d);
               omega_L = fst wheel_speeds;
               omega_R = snd wheel_speeds
           in if differential (config d) = LOCKED then Inr (axle_torque / 2, axle_torque / 2)
              else if differential (config d) = OPEN then Inr (axle_torque / 2, axle_torque / 2)
              else if differential (config d) = LSD
              then Inr (calculate_lsd_torques d axle_torque omega_L omega_R)
              else Inr (axle_torque / 2, axle_torque / 2)))"

subsection \<open>tire/pacejka.py\<close>










subsection \<open>tire/combined.py\<close>

record combined_forces =
  Fx :: real
  Fy :: real
  Fx_pure :: real
  Fy_pure :: real
  saturation :: real








subsection \<open>tire/relaxation.py\<close>

record tire_relaxation =
  sigma_x :: real
  sigma_y :: real
  Fx :: real
  Fy :: real

text \<open>\<^verbatim>\<open>TireRelaxation.__init__\<close> with its default relaxation lengths as arguments.\<close>

definition TireRelaxation :: "real \<Rightarrow> real \<Rightarrow> tire_relaxation" where
  "TireRelaxation relaxation_length_x relaxation_length_y =
     \<lparr>sigma_x = relaxation_length_x, sigma_y = relaxation_length_y, Fx = 0, Fy = 0\<rparr>"

definition MIN_VELOCITY :: real where
  "MIN_VELOCITY = 5 / 10"

definition MAX_TAU :: real where
  "MAX_TAU = 5 / 10"

text \<open>
  \<^verbatim>\<open>TireRelaxation.update\<close>: the exact exponential filter. The result is the updated
  object together with the returned pair \<^verbatim>\<open>(self.Fx, self.Fy)\<close>.
\<close>

definition relaxation_update ::
  "tire_relaxation \<Rightarrow> real \<Rightarrow> real \<Rightarrow> real \<Rightarrow> real \<Rightarrow> tire_relaxation \<times> (real \<times> real)" where
  "relaxation_update r target_Fx target_Fy velocity dt =
     (let v = max \<bar>velocity\<bar> MIN_VELOCITY;
          tau_x = min (sigma_x r / v) MAX_TAU;
          tau_y = min (sigma_y r / v) MAX_TAU;
          Fx' = (if tau_x > 0
                 then Fx r + (target_Fx - Fx r) * (1 - exp (- dt / tau_x))
                 else target_Fx);
          Fy' = (if tau_y > 0
                 then Fy r + (target_Fy - Fy r) * (1 - exp (- dt / tau_y))
                 else target_Fy)
      in (r\<lparr>Fx := Fx', Fy := Fy'\<rparr>, (Fx', Fy')))"

text \<open>\<^verbatim>\<open>TireRelaxation.update_simple\<close>: the linear variant.\<close>

definition relaxation_update_simple ::
  "tire_relaxation \<Rightarrow> real \<Rightarrow> real \<Rightarrow> real \<Rightarrow> real \<Rightarrow> tire_relaxation \<times> (real \<times> real)" where
  "relaxation_update_simple r target_Fx target_Fy velocity dt =
     (let v = max \<bar>velocity\<bar> MIN_VELOCITY;
          tau_x = min (sigma_x r / v) MAX_TAU;
          tau_y = min (sigma_y r / v) MAX_TAU;
          alpha_x = (if tau_x > 0 then min (dt / tau_x) 1 else 1);
          alpha_y = (if tau_y > 0 then min (dt / tau_y) 1 else 1);
          Fx' = Fx r + (target_Fx - Fx r) * alpha_x;
          Fy' = Fy r + (target_Fy - Fy r) * alpha_y
      in (r\<lparr>Fx := Fx', Fy := Fy'\<rparr>, (Fx', Fy')))"

text \<open>
  A run of the filter against a constant target: one update per \<open>(velocity, dt)\<close> of the
  list, with the exponential update or (\<open>simple\<close>) the linear one.
\<close>

fun relaxation_run ::
  "bool \<Rightarrow> real \<Rightarrow> real \<Rightarrow> tire_relaxation \<Rightarrow> (real \<times> real) list \<Rightarrow> tire_relaxation" where
  "relaxation_run simple target_Fx target_Fy r [] = r"
| "relaxation_run simple target_Fx target_Fy r ((velocity, dt) # rest) =
     relaxation_run simple target_Fx target_Fy
       (fst ((if simple then relaxation_update_simple else relaxation_update)
               r target_Fx target_Fy velocity dt)) rest"

subsection \<open>core/vector.py\<close>

record vector3 =
  vec_x :: real
  vec_y :: real
  vec_z :: real





text \<open>
  \<^verbatim>\<open>normalize_angle\<close>: two \<^verbatim>\<open>while\<close> loops, the first subtracting \<open>2\<pi>\<close> while the
  angle is above \<open>\<pi>\<close>, the second adding \<open>2\<pi>\<close> while it is below \<open>-\<pi>\<close>. Over the reals
  both end: the number of turns left decreases.
\<close>

function normalize_angle_down :: "real \<Rightarrow> real" where
  "normalize_angle_down angle =
     (if angle > pi then normalize_angle_down (angle - 2 * pi) else angle)"
  by pat_completeness auto
termination
proof (relation "measure (\<lambda>angle. nat \<lceil>angle / (2 * pi)\<rceil>)")
  show "wf (measure (\<lambda>angle. nat \<lceil>angle / (2 * pi)\<rceil>))"
    by simp
next
  fix angle :: real
  assume gt: "pi < angle"
  define t where "t = angle / (2 * pi)"
  have "(angle - 2 * pi) / (2 * pi) = t - 1"
    by (simp add: t_def diff_divide_distrib)
  then have step: "\<lceil>(angle - 2 * pi) / (2 * pi)\<rceil> = \<lceil>t\<rceil> - 1"
    by simp
  have "0 < angle"
    using gt pi_gt_zero by linarith
  then have "0 < t"
    unfolding t_def by (intro divide_pos_pos) simp_all
  then have "0 < \<lceil>t\<rceil>"
    by simp
  then have "nat (\<lceil>t\<rceil> - 1) < nat \<lceil>t\<rceil>"
    by linarith
  then show "(angle - 2 * pi, angle) \<in> measure (\<lambda>angle. nat \<lceil>angle / (2 * pi)\<rceil>)"
    unfolding in_measure step t_def .
qed

declare normalize_angle_down.simps [simp del]




subsection \<open>core/rigid_body.py\<close>

record rigid_body =
  mass :: real
  inertia :: real
  position :: vector3
  orientation :: real
  velocity :: vector3
  angular_velocity :: real
  force :: vector3
  torque :: real






subsection \<open>core/world.py\<close>

datatype integrator_type = SEMI_IMPLICIT_EULER | RK4

text \<open>
  \<^verbatim>\<open>World\<close>. The list holds vehicles of any type \<open>'v\<close>; the world only calls their
  \<^verbatim>\<open>physics_step(dt)\<close>, which is a parameter \<open>physics_step\<close> of the functions below and may
  raise.
\<close>

record 'v world =
  dt :: real
  time :: real
  gravity :: real
  integrator :: integrator_type
  vehicles :: "'v list"
  accumulator :: real
  max_steps_per_frame :: int

text \<open>The dataclass defaults: a fresh world.\<close>

definition World :: "'v world" where
  "World =
     \<lparr>dt = 1 / 1000, time = 0, gravity = 981 / 100, integrator = SEMI_IMPLICIT_EULER,
      vehicles = [], accumulator = 0, max_steps_per_frame = 20\<rparr>"

text \<open>The \<^verbatim>\<open>for vehicle in self.vehicles\<close> loop of \<^verbatim>\<open>World.step\<close>.\<close>

fun step_vehicles ::
  "('v \<Rightarrow> real \<Rightarrow> py_error + 'v) \<Rightarrow> real \<Rightarrow> 'v list \<Rightarrow> py_error + 'v list" where
  "step_vehicles physics_step d [] = Inr []"
| "step_vehicles physics_step d (vehicle # rest) =
     py_bind (physics_step vehicle d) (\<lambda>vehicle'.
     py_bind (step_vehicles physics_step d rest) (\<lambda>rest'. Inr (vehicle' # rest')))"

definition step :: "('v \<Rightarrow> real \<Rightarrow> py_error + 'v) \<Rightarrow> 'v world \<Rightarrow> py_error + 'v world" where
  "step physics_step w =
     py_bind (step_vehicles physics_step (dt w) (vehicles w)) (\<lambda>vs.
       Inr (w\<lparr>vehicles := vs, time := time w + dt w\<rparr>))"

text \<open>
  The \<^verbatim>\<open>while\<close> loop of \<^verbatim>\<open>World.step_fixed\<close>, on the world and the local \<open>steps\<close>. It
  ends because \<open>max_steps_per_frame - steps\<close> decreases.
\<close>

function step_fixed_loop ::
  "('v \<Rightarrow> real \<Rightarrow> py_error + 'v) \<Rightarrow> 'v world \<Rightarrow> int \<Rightarrow> py_error + 'v world \<times> int" where
  "step_fixed_loop physics_step w steps =
     (if accumulator w \<ge> dt w \<and> steps < max_steps_per_frame w then
        (case step physics_step w of
           Inl e \<Rightarrow> Inl e
         | Inr w' \<Rightarrow>
             step_fixed_loop physics_step (w'\<lparr>accumulator := accumulator w' - dt w'\<rparr>)
               (steps + 1))
      else Inr (w, steps))"
  by pat_completeness auto
termination
proof (relation "measure (\<lambda>(physics_step, w, steps). nat (max_steps_per_frame w - steps))")
  show "wf (measure (\<lambda>(physics_step, w, steps). nat (max_steps_per_frame w - steps)))"
    by simp
next
  fix physics_step :: "'v \<Rightarrow> real \<Rightarrow> py_error + 'v"
  fix w w' :: "'v world" and steps :: int
  assume cond: "dt w \<le> accumulator w \<and> steps < max_steps_per_frame w"
    and ret: "step physics_step w = Inr w'"
  have "max_steps_per_frame w' = max_steps_per_frame w"
    using ret
    by (cases "step_vehicles physics_step (dt w) (vehicles w)")
       (auto simp: step_def py_bind_def)
  with cond
  show "((physics_step, w'\<lparr>accumulator := accumulator w' - dt w'\<rparr>, steps + 1),
         (physics_step, w, steps))
          \<in> measure (\<lambda>(physics_step, w, steps). nat (max_steps_per_frame w - steps))"
    by simp
qed

declare step_fixed_loop.simps [simp del]

definition step_fixed ::
  "('v \<Rightarrow> real \<Rightarrow> py_error + 'v) \<Rightarrow> 'v world \<Rightarrow> real \<Rightarrow> py_error + 'v world \<times> int" where
  "step_fixed physics_step w real_dt =
     step_fixed_loop physics_step (w\<lparr>accumulator := accumulator w + real_dt\<rparr>) 0"

definition get_interpolation_alpha :: "'v world \<Rightarrow> real" where
  "get_interpolation_alpha w = (if dt w > 0 then accumulator w / dt w else 0)"

text \<open>A vehicle whose physics step does nothing, for worlds of no vehicles.\<close>

definition idle_step :: "unit \<Rightarrow> real \<Rightarrow> py_error + unit" where
  "idle_step vehicle d = Inr vehicle"

subsection \<open>vehicle/suspension.py\<close>

record wheel_loads =
  FL :: real
  FR :: real
  RL :: real
  RR :: real

text \<open>The properties \<^verbatim>\<open>front_total\<close>, \<^verbatim>\<open>rear_total\<close> and \<^verbatim>\<open>total\<close> of \<^verbatim>\<open>WheelLoads\<close>.\<close>

definition front_total :: "wheel_loads \<Rightarrow> real" where
  "front_total l = FL l + FR l"

definition rear_total :: "wheel_loads \<Rightarrow> real" where
  "rear_total l = RL l + RR l"

definition wheel_loads_total :: "wheel_loads \<Rightarrow> real" where
  "wheel_loads_total l = FL l + FR l + RL l + RR l"

record suspension_config =
  wheelbase :: real
  track_front :: real
  track_rear :: real
  cg_height :: real
  cg_to_front :: real
  total_mass :: real
  gravity :: real
  front_roll_stiffness :: real
  rear_roll_stiffness :: real

text \<open>The dataclass defaults of \<^verbatim>\<open>SuspensionConfig\<close>.\<close>

definition SuspensionConfig :: suspension_config where
  "SuspensionConfig =
     \<lparr>wheelbase = 27 / 10, track_front = 15 / 10, track_rear = 15 / 10, cg_height = 5 / 10,
      cg_to_front = 135 / 100, total_mass = 1400, gravity = 981 / 100,
      front_roll_stiffness = 5 / 10, rear_roll_stiffness = 5 / 10\<rparr>"

definition cg_to_rear :: "suspension_config \<Rightarrow> real" where
  "cg_to_rear c = wheelbase c - cg_to_front c"

definition front_weight_fraction :: "suspension_config \<Rightarrow> py_error + real" where
  "front_weight_fraction c = py_div (cg_to_rear c) (wheelbase c)"

definition rear_weight_fraction :: "suspension_config \<Rightarrow> py_error + real" where
  "rear_weight_fraction c = py_div (cg_to_front c) (wheelbase c)"

text \<open>
  The methods of \<^verbatim>\<open>Suspension\<close> below read \<^verbatim>\<open>self\<close> only through
  \<^verbatim>\<open>self.config\<close>, so they take the configuration.
\<close>

definition calculate_static_loads :: "suspension_config \<Rightarrow> py_error + wheel_loads" where
  "calculate_static_loads c =
     (let total_weight = total_mass c * gravity c in
      py_bind (front_weight_fraction c) (\<lambda>front_frac.
      py_bind (rear_weight_fraction c) (\<lambda>rear_frac.
        let front_weight = total_weight * front_frac;
            rear_weight = total_weight * rear_frac
        in Inr \<lparr>FL = front_weight / 2, FR = front_weight / 2,
                 RL = rear_weight / 2, RR = rear_weight / 2\<rparr>)))"

definition calculate_loads_simple ::
  "suspension_config \<Rightarrow> real \<Rightarrow> real \<Rightarrow> py_error + wheel_loads" where
  "calculate_loads_simple c longitudinal_accel lateral_accel =
     (let m = total_mass c;
          h = cg_height c;
          g = gravity c;
          total_weight = m * g
      in
      py_bind (front_weight_fraction c) (\<lambda>front_frac.
      py_bind (rear_weight_fraction c) (\<lambda>rear_frac.
      py_bind (py_div (m * longitudinal_accel * h) (wheelbase c)) (\<lambda>long_transfer.
      py_bind (py_div (m * lateral_accel * h * front_frac) (track_front c)) (\<lambda>lat_transfer_front.
      py_bind (py_div (m * lateral_accel * h * rear_frac) (track_rear c)) (\<lambda>lat_transfer_rear.
        let loads =
              \<lparr>FL = total_weight * front_frac / 2 - long_transfer / 2 + lat_transfer_front,
               FR = total_weight * front_frac / 2 - long_transfer / 2 - lat_transfer_front,
               RL = total_weight * rear_frac / 2 + long_transfer / 2 + lat_transfer_rear,
               RR = total_weight * rear_frac / 2 + long_transfer / 2 - lat_transfer_rear\<rparr>
        in Inr (loads\<lparr>FL := max 0 (FL loads), FR := max 0 (FR loads),
                       RL := max 0 (RL loads), RR := max 0 (RR loads)\<rparr>)))))))"

section \<open>Properties\<close>

subsection \<open>Division and sequencing\<close>

lemma py_bind_Inr [simp]: "py_bind (Inr v) f = f v"
  by (simp add: py_bind_def)

lemma py_bind_Inl [simp]: "py_bind (Inl e) f = Inl e"
  by (simp add: py_bind_def)

lemma py_div_nonzero [simp]: "b \<noteq> 0 \<Longrightarrow> py_div a b = Inr (a / b)"
  by (simp add: py_div_def)

lemma py_div_zero [simp]: "py_div a 0 = Inl ZeroDivisionError"
  by (simp add: py_div_def)

lemma collect_map_Inr [simp]: "collect (map (\<lambda>x. Inr (f x)) xs) = Inr (map f xs)"
  by (induction xs) simp_all



lemma linspace_not_Nil [simp]: "0 < num \<Longrightarrow> linspace start stop num \<noteq> []"
  by (simp add: linspace_def)

subsection \<open>Steering: the small-angle Ackermann correction\<close>

text \<open>
  What the linear branch computes, for either turn direction: the left wheel receives
  \<open>\<delta> + \<Delta>\<close> and the right wheel \<open>\<delta> - \<Delta>\<close>, where \<open>\<Delta>\<close> has the sign of \<open>\<delta>\<close>.
\<close>

lemma get_wheel_angles_small:
  assumes "1 / 1000 \<le> \<bar>u * max_steer_angle (steering.config s)\<bar>"
    and "\<bar>u * max_steer_angle (steering.config s)\<bar> < 1 / 10"
    and "1 / 1000 \<le> ackermann_factor (steering.config s)"
    and "track_width (steering.config s) \<noteq> 0"
  shows "get_wheel_angles s (Some u) =
           Inr (u * max_steer_angle (steering.config s)
                  + steering_config.wheelbase (steering.config s)
                      * (u * max_steer_angle (steering.config s))
                      / (2 * track_width (steering.config s))
                      * ackermann_factor (steering.config s),
                u * max_steer_angle (steering.config s)
                  - steering_config.wheelbase (steering.config s)
                      * (u * max_steer_angle (steering.config s))
                      / (2 * track_width (steering.config s))
                      * ackermann_factor (steering.config s))"
  using assms by (simp add: get_wheel_angles_def Let_def)

text \<open>
  Claim C5 on a right turn. With the default configuration and steering input 0.1 the
  base angle is \<open>\<delta> = 0.06\<close> and the correction \<open>\<Delta> = 0.0432\<close>. The left wheel, the outer
  one on a right turn, receives \<open>\<delta> + \<Delta> = 0.1032\<close> and the inner right wheel
  \<open>\<delta> - \<Delta> = 0.0168\<close>: the reverse of what the claim assigns.
\<close>

theorem small_angle_right_turn_wheel_angles:
  "1 / 10 * max_steer_angle SteeringConfig = 6 / 100 \<and>
   steering_config.wheelbase SteeringConfig * (6 / 100) / (2 * track_width SteeringConfig)
     * ackermann_factor SteeringConfig = 432 / 10000 \<and>
   get_wheel_angles (Steering SteeringConfig) (Some (1 / 10))
     = Inr (6 / 100 + 432 / 10000, 6 / 100 - 432 / 10000) \<and>
   get_wheel_angles (Steering SteeringConfig) (Some (1 / 10))
     \<noteq> Inr (6 / 100 - 432 / 10000, 6 / 100 + 432 / 10000)"
  by (simp add: get_wheel_angles_def Steering_def SteeringConfig_def Let_def)

subsection \<open>Drivetrain: the differential conserves torque\<close>

lemma calculate_lsd_torques_sum:
  "fst (calculate_lsd_torques d T wL wR) + snd (calculate_lsd_torques d T wL wR) = T"
  by (simp add: calculate_lsd_torques_def Let_def)

lemma get_engine_torque_returns:
  assumes "max_rpm (config d) \<noteq> 0"
  shows "\<exists>te. get_engine_torque d arg = Inr te"
  using assms by (simp add: get_engine_torque_def Let_def)

lemma get_drive_torques_value:
  assumes "get_engine_torque d (Some thr) = Inr te"
  shows "\<exists>TL TR. get_drive_torques d thr (wL, wR) = Inr (TL, TR) \<and>
                 TL + TR = te * gear_ratio (config d) * efficiency (config d)"
proof -
  let ?T = "te * gear_ratio (config d) * efficiency (config d)"
  obtain TL TR where lsd: "calculate_lsd_torques d ?T wL wR = (TL, TR)"
    by (cases "calculate_lsd_torques d ?T wL wR") auto
  have sum: "TL + TR = ?T"
    using calculate_lsd_torques_sum [of d ?T wL wR] lsd by simp
  have half: "?T / 2 + ?T / 2 = ?T"
    by simp
  show ?thesis
  proof (cases "differential (config d)")
    case OPEN
    with assms have "get_drive_torques d thr (wL, wR) = Inr (?T / 2, ?T / 2)"
      by (simp add: get_drive_torques_def Let_def)
    with half show ?thesis by blast
  next
    case LOCKED
    with assms have "get_drive_torques d thr (wL, wR) = Inr (?T / 2, ?T / 2)"
      by (simp add: get_drive_torques_def Let_def)
    with half show ?thesis by blast
  next
    case LSD
    with assms lsd have "get_drive_torques d thr (wL, wR) = Inr (TL, TR)"
      by (simp add: get_drive_torques_def Let_def)
    with sum show ?thesis by blast
  qed
qed

text \<open>
  Claim C10. For every differential type, throttle and pair of wheel speeds, the two drive
  torques returned by \<open>get_drive_torques\<close> add up to the axle torque, that is the engine
  torque times the gear ratio times the efficiency. The call returns as soon as
  \<open>max_rpm\<close> is not zero (the only unguarded division of the engine map).
\<close>

theorem drive_torques_sum_to_axle_torque:
  "(\<forall>TL TR. get_drive_torques d thr (wL, wR) = Inr (TL, TR) \<longrightarrow>
      (\<exists>te. get_engine_torque d (Some thr) = Inr te \<and>
            TL + TR = te * gear_ratio (config d) * efficiency (config d))) \<and>
   (max_rpm (config d) \<noteq> 0 \<longrightarrow>
      (\<exists>TL TR. get_drive_torques d thr (wL, wR) = Inr (TL, TR)))"
proof (intro conjI allI impI)
  fix TL TR
  assume ret: "get_drive_torques d thr (wL, wR) = Inr (TL, TR)"
  then obtain te where te: "get_engine_torque d (Some thr) = Inr te"
    by (cases "get_engine_torque d (Some thr)") (simp_all add: get_drive_torques_def)
  from get_drive_torques_value [OF te, of wL wR] ret
  have "TL + TR = te * gear_ratio (config d) * efficiency (config d)"
    by auto
  with te show "\<exists>te. get_engine_torque d (Some thr) = Inr te \<and>
            TL + TR = te * gear_ratio (config d) * efficiency (config d)"
    by blast
next
  assume "max_rpm (config d) \<noteq> 0"
  then obtain te where "get_engine_torque d (Some thr) = Inr te"
    using get_engine_torque_returns by blast
  then show "\<exists>TL TR. get_drive_torques d thr (wL, wR) = Inr (TL, TR)"
    using get_drive_torques_value by blast
qed

text \<open>
  The default drivetrain with a limited-slip differential, full throttle, the right wheel
  faster: 115.32 Nm move from the right wheel to the left one.
\<close>

theorem drive_torques_sum_to_axle_torque_witness:
  "max_rpm (config (Drivetrain (DrivetrainConfig\<lparr>differential := LSD\<rparr>))) \<noteq> 0 \<and>
   get_drive_torques (Drivetrain (DrivetrainConfig\<lparr>differential := LSD\<rparr>)) 1 (10, 20)
     = Inr (58932 / 100, 35868 / 100) \<and>
   (\<exists>te. get_engine_torque (Drivetrain (DrivetrainConfig\<lparr>differential := LSD\<rparr>)) (Some 1)
           = Inr te \<and>
         58932 / 100 + 35868 / 100 = te * (35 / 10) * (9 / 10))"
proof -
  let ?d = "Drivetrain (DrivetrainConfig\<lparr>differential := LSD\<rparr>)"
  have h: "max_rpm (config ?d) \<noteq> 0"
    by (simp add: Drivetrain_def DrivetrainConfig_def)
  have te: "get_engine_torque ?d (Some 1) = Inr (6320 / 21)"
    by (simp add: get_engine_torque_def Drivetrain_def DrivetrainConfig_def Let_def)
  have ret: "get_drive_torques ?d 1 (10, 20) = Inr (58932 / 100, 35868 / 100)"
    by (simp add: get_drive_torques_def te calculate_lsd_torques_def Let_def)
       (simp add: Drivetrain_def DrivetrainConfig_def)
  have cfg: "gear_ratio (config ?d) = 35 / 10" "efficiency (config ?d) = 9 / 10"
    by (simp_all add: Drivetrain_def DrivetrainConfig_def)
  show ?thesis
    using h ret drive_torques_sum_to_axle_torque [of ?d 1 10 20] unfolding cfg by blast
qed

subsection \<open>Pacejka: what bounds the force\<close>









subsection \<open>Combined slip: the friction ellipse\<close>











subsection \<open>Combined slip: the vector method on the sport tire\<close>





















subsection \<open>Relaxation: the error never grows\<close>

lemma blend_error_le:
  fixes t F a :: real
  assumes "0 \<le> a" "a \<le> 1"
  shows "\<bar>t - (F + (t - F) * a)\<bar> \<le> \<bar>t - F\<bar>"
proof -
  have "t - (F + (t - F) * a) = (t - F) * (1 - a)"
    by (simp add: algebra_simps)
  then have "\<bar>t - (F + (t - F) * a)\<bar> = \<bar>t - F\<bar> * (1 - a)"
    using assms by (simp add: abs_mult)
  also have "\<dots> \<le> \<bar>t - F\<bar> * 1"
    using assms by (intro mult_left_mono) auto
  finally show ?thesis by simp
qed

lemma exp_alpha_range:
  fixes tstep tau :: real
  assumes "0 \<le> tstep" "0 < tau"
  shows "0 \<le> 1 - exp (- tstep / tau)" "1 - exp (- tstep / tau) \<le> 1"
proof -
  have "- tstep / tau \<le> 0"
    using assms by (simp add: divide_nonpos_pos)
  then show "0 \<le> 1 - exp (- tstep / tau)"
    by simp
  show "1 - exp (- tstep / tau) \<le> 1"
    by simp
qed

lemma relaxation_update_error:
  assumes "0 \<le> tstep"
  shows "\<bar>tx - Fx (fst (relaxation_update r tx ty v tstep))\<bar> \<le> \<bar>tx - Fx r\<bar>"
    and "\<bar>ty - Fy (fst (relaxation_update r tx ty v tstep))\<bar> \<le> \<bar>ty - Fy r\<bar>"
  using assms blend_error_le exp_alpha_range
  by (simp_all add: relaxation_update_def Let_def)

lemma linear_alpha_range:
  fixes tstep tau :: real
  assumes "0 \<le> tstep"
  shows "0 \<le> (if 0 < tau then min (tstep / tau) 1 else 1)"
    and "(if 0 < tau then min (tstep / tau) 1 else 1) \<le> 1"
  using assms by simp_all

lemma relaxation_update_simple_error:
  assumes "0 \<le> tstep"
  shows "\<bar>tx - Fx (fst (relaxation_update_simple r tx ty v tstep))\<bar> \<le> \<bar>tx - Fx r\<bar>"
    and "\<bar>ty - Fy (fst (relaxation_update_simple r tx ty v tstep))\<bar> \<le> \<bar>ty - Fy r\<bar>"
proof -
  let ?v = "max \<bar>v\<bar> MIN_VELOCITY"
  let ?ax = "\<lambda>tau::real. if 0 < tau then min (tstep / tau) 1 else 1"
  have x: "Fx (fst (relaxation_update_simple r tx ty v tstep)) =
             Fx r + (tx - Fx r) * ?ax (min (sigma_x r / ?v) MAX_TAU)"
    by (simp add: relaxation_update_simple_def Let_def)
  have y: "Fy (fst (relaxation_update_simple r tx ty v tstep)) =
             Fy r + (ty - Fy r) * ?ax (min (sigma_y r / ?v) MAX_TAU)"
    by (simp add: relaxation_update_simple_def Let_def)
  show "\<bar>tx - Fx (fst (relaxation_update_simple r tx ty v tstep))\<bar> \<le> \<bar>tx - Fx r\<bar>"
    unfolding x by (rule blend_error_le) (rule linear_alpha_range [OF assms])+
  show "\<bar>ty - Fy (fst (relaxation_update_simple r tx ty v tstep))\<bar> \<le> \<bar>ty - Fy r\<bar>"
    unfolding y by (rule blend_error_le) (rule linear_alpha_range [OF assms])+
qed

lemma relaxation_run_snoc:
  "relaxation_run simple tx ty r (steps @ [(v, tstep)]) =
     fst ((if simple then relaxation_update_simple else relaxation_update)
            (relaxation_run simple tx ty r steps) tx ty v tstep)"
  by (induction steps arbitrary: r) auto

text \<open>
  Claim C7. Along every sequence of updates against a constant target, the error
  \<open>\<bar>F_target - F_filtered\<bar>\<close> after one more update with \<open>tstep \<ge> 0\<close> is at most the error
  before it, on both axes and for both the exponential and the linear update. The time
  constant needs no assumption: it is positive when the relaxation length is, and the
  code jumps to the target otherwise.
\<close>

theorem relaxation_error_non_increasing:
  assumes "0 \<le> tstep"
  shows "\<bar>tx - Fx (relaxation_run simple tx ty r (steps @ [(v, tstep)]))\<bar>
           \<le> \<bar>tx - Fx (relaxation_run simple tx ty r steps)\<bar> \<and>
         \<bar>ty - Fy (relaxation_run simple tx ty r (steps @ [(v, tstep)]))\<bar>
           \<le> \<bar>ty - Fy (relaxation_run simple tx ty r steps)\<bar>"
  using assms relaxation_update_error relaxation_update_simple_error
  by (simp add: relaxation_run_snoc)

theorem relaxation_error_non_increasing_witness:
  "(0::real) \<le> 1 / 100 \<and>
   \<bar>1000 - Fx (relaxation_run False 1000 500 (TireRelaxation (4 / 10) (5 / 10))
                  ([(10, 1 / 100)] @ [(10, 1 / 100)]))\<bar>
     \<le> \<bar>1000 - Fx (relaxation_run False 1000 500 (TireRelaxation (4 / 10) (5 / 10))
                  [(10, 1 / 100)])\<bar> \<and>
   \<bar>500 - Fy (relaxation_run True 1000 500 (TireRelaxation (4 / 10) (5 / 10))
                  ([(10, 1 / 100)] @ [(10, 1 / 100)]))\<bar>
     \<le> \<bar>500 - Fy (relaxation_run True 1000 500 (TireRelaxation (4 / 10) (5 / 10))
                  [(10, 1 / 100)])\<bar>"
proof -
  have h: "(0::real) \<le> 1 / 100" by simp
  show ?thesis
    using h relaxation_error_non_increasing [OF h, of 1000 False 500 "TireRelaxation (4 / 10) (5 / 10)" "[(10, 1 / 100)]" 10]
          relaxation_error_non_increasing [OF h, of 1000 True 500 "TireRelaxation (4 / 10) (5 / 10)" "[(10, 1 / 100)]" 10]
    by blast
qed

subsection \<open>Rigid body: the yaw stays in range\<close>


lemma normalize_angle_down_ge: "- pi \<le> a \<Longrightarrow> - pi \<le> normalize_angle_down a"
proof (induction a rule: normalize_angle_down.induct)
  case (1 angle)
  show ?case
  proof (cases "pi < angle")
    case True
    then have "- pi \<le> angle - 2 * pi"
      by simp
    with 1 True have "- pi \<le> normalize_angle_down (angle - 2 * pi)"
      by simp
    with True show ?thesis
      by (subst normalize_angle_down.simps) simp
  next
    case False
    with 1 show ?thesis
      by (subst normalize_angle_down.simps) simp
  qed
qed









subsection \<open>World: the fixed-timestep loop\<close>

lemma step_fields:
  assumes "step ps w = Inr w'"
  shows "max_steps_per_frame w' = max_steps_per_frame w" "dt w' = dt w"
    "accumulator w' = accumulator w" "time w' = time w + dt w"
  using assms
  by (cases "step_vehicles ps (dt w) (vehicles w)"; auto simp: step_def)+

lemma step_no_vehicles:
  "vehicles w = [] \<Longrightarrow> step ps w = Inr (w\<lparr>vehicles := [], time := time w + dt w\<rparr>)"
  by (simp add: step_def)

lemma step_vehicles_returns:
  assumes "\<forall>v d. \<exists>v'. ps v d = Inr v'"
  shows "\<exists>vs'. step_vehicles ps d vs = Inr vs'"
proof (induction vs)
  case Nil
  show ?case by simp
next
  case (Cons v vs)
  from assms obtain v' where "ps v d = Inr v'" by blast
  moreover from Cons obtain vs' where "step_vehicles ps d vs = Inr vs'" by blast
  ultimately show ?case by simp
qed

lemma step_returns:
  assumes "\<forall>v d. \<exists>v'. ps v d = Inr v'"
  shows "\<exists>w'. step ps w = Inr w'"
  using step_vehicles_returns [OF assms, of "dt w" "vehicles w"]
  by (auto simp: step_def)

lemma step_fixed_loop_stop:
  "\<not> (dt w \<le> accumulator w \<and> s < max_steps_per_frame w) \<Longrightarrow>
     step_fixed_loop ps w s = Inr (w, s)"
  by (subst step_fixed_loop.simps) auto

lemma step_fixed_loop_continue:
  "dt w \<le> accumulator w \<Longrightarrow> s < max_steps_per_frame w \<Longrightarrow> step ps w = Inr w1 \<Longrightarrow>
     step_fixed_loop ps w s =
       step_fixed_loop ps (w1\<lparr>accumulator := accumulator w1 - dt w1\<rparr>) (s + 1)"
  by (subst step_fixed_loop.simps) simp

lemma step_fixed_loop_raise:
  "dt w \<le> accumulator w \<Longrightarrow> s < max_steps_per_frame w \<Longrightarrow> step ps w = Inl e \<Longrightarrow>
     step_fixed_loop ps w s = Inl e"
  by (subst step_fixed_loop.simps) simp

lemma step_fixed_loop_bounds:
  "step_fixed_loop ps w s = Inr (w', n) \<Longrightarrow> s \<le> n \<and> n \<le> max s (max_steps_per_frame w)"
proof (induction ps w s rule: step_fixed_loop.induct)
  case (1 ps w steps)
  show ?case
  proof (cases "dt w \<le> accumulator w \<and> steps < max_steps_per_frame w")
    case False
    with "1.prems" show ?thesis
      by (simp add: step_fixed_loop_stop)
  next
    case True
    show ?thesis
    proof (cases "step ps w")
      case (Inl e)
      with True "1.prems" show ?thesis
        by (simp add: step_fixed_loop_raise)
    next
      case (Inr w1)
      with True "1.prems"
      have rec: "step_fixed_loop ps (w1\<lparr>accumulator := accumulator w1 - dt w1\<rparr>) (steps + 1)
                  = Inr (w', n)"
        by (simp add: step_fixed_loop_continue)
      from "1.IH" [OF True Inr rec] step_fields(1) [OF Inr] True
      show ?thesis by auto
    qed
  qed
qed

lemma step_fixed_loop_returns:
  assumes "\<forall>v d. \<exists>v'. ps v d = Inr v'"
  shows "\<exists>w' n. step_fixed_loop ps w s = Inr (w', n)"
  using assms
proof (induction ps w s rule: step_fixed_loop.induct)
  case (1 ps w steps)
  show ?case
  proof (cases "dt w \<le> accumulator w \<and> steps < max_steps_per_frame w")
    case False
    then show ?thesis
      by (simp add: step_fixed_loop_stop)
  next
    case True
    from step_returns [OF "1.prems"] obtain w1 where w1: "step ps w = Inr w1"
      by blast
    from "1.IH" [OF True w1 "1.prems"] True w1 show ?thesis
      by (simp add: step_fixed_loop_continue)
  qed
qed

text \<open>
  A world of no vehicles whose accumulator stays at or above \<open>dt\<close> for \<open>k\<close> more steps,
  with \<open>k\<close> steps left under the cap: the loop takes exactly \<open>k\<close> steps.
\<close>

lemma step_fixed_loop_no_vehicles:
  assumes "vehicles w = []"
    and "max_steps_per_frame w = s + int k"
    and "\<And>j. j < k \<Longrightarrow> dt w \<le> accumulator w - real j * dt w"
  shows "step_fixed_loop ps w s =
           Inr (w\<lparr>vehicles := [], time := time w + real k * dt w,
                   accumulator := accumulator w - real k * dt w\<rparr>, s + int k)"
  using assms
proof (induction k arbitrary: w s)
  case 0
  then have "w\<lparr>vehicles := [], time := time w, accumulator := accumulator w\<rparr> = w"
    by simp
  with 0 show ?case
    by (simp add: step_fixed_loop_stop)
next
  case (Suc k)
  let ?w1 = "w\<lparr>vehicles := [], time := time w + dt w, accumulator := accumulator w - dt w\<rparr>"
  from Suc.prems(3) [of 0] have ge: "dt w \<le> accumulator w"
    by simp
  have lt: "s < max_steps_per_frame w"
    using Suc.prems(2) by simp
  have later: "dt ?w1 \<le> accumulator ?w1 - real j * dt ?w1" if "j < k" for j
    using Suc.prems(3) [of "Suc j"] that by (simp add: algebra_simps)
  have rec: "step_fixed_loop ps ?w1 (s + 1) =
               Inr (?w1\<lparr>vehicles := [], time := time ?w1 + real k * dt ?w1,
                        accumulator := accumulator ?w1 - real k * dt ?w1\<rparr>, s + 1 + int k)"
    using Suc.prems(2) later by (intro Suc.IH) simp_all
  have "step_fixed_loop ps w s = step_fixed_loop ps ?w1 (s + 1)"
    using step_fixed_loop_continue [OF ge lt step_no_vehicles [OF Suc.prems(1)], of ps]
    by simp
  also note rec
  finally show ?case
    by (simp add: algebra_simps)
qed

text \<open>
  Claim C2. With the cap at its value 20, a call of \<open>step_fixed\<close> that returns has taken
  between 0 and 20 steps, whatever \<open>real_dt\<close>, the accumulator and the rest of the state;
  it returns whenever the vehicles' physics steps do. On a fresh world (\<open>dt\<close> = 1 ms)
  \<open>step_fixed 10\<close> returns exactly 20 and the time has advanced by \<open>20 * dt\<close>.
\<close>

theorem step_fixed_at_most_20:
  assumes "max_steps_per_frame w = 20"
  shows "(\<forall>w' n. step_fixed ps w real_dt = Inr (w', n) \<longrightarrow> 0 \<le> n \<and> n \<le> 20) \<and>
         ((\<forall>v d. \<exists>v'. ps v d = Inr v') \<longrightarrow> (\<exists>w' n. step_fixed ps w real_dt = Inr (w', n))) \<and>
         step_fixed ps World 10 =
           Inr (World\<lparr>time := time World + 20 * dt World,
                       accumulator := 10 - 20 * dt World\<rparr>, 20)"
proof (intro conjI allI impI)
  fix w' n
  assume "step_fixed ps w real_dt = Inr (w', n)"
  from step_fixed_loop_bounds [OF this [unfolded step_fixed_def]] assms
  show "0 \<le> n" "n \<le> 20"
    by simp_all
next
  assume "\<forall>v d. \<exists>v'. ps v d = Inr v'"
  then show "\<exists>w' n. step_fixed ps w real_dt = Inr (w', n)"
    unfolding step_fixed_def by (rule step_fixed_loop_returns)
next
  let ?w = "(World :: 'a world)\<lparr>accumulator := 10\<rparr>"
  have "step_fixed_loop ps ?w 0 =
          Inr (?w\<lparr>vehicles := [], time := time ?w + real 20 * dt ?w,
                  accumulator := accumulator ?w - real 20 * dt ?w\<rparr>, 0 + int 20)"
  proof (rule step_fixed_loop_no_vehicles)
    show "vehicles ?w = []" "max_steps_per_frame ?w = 0 + int 20"
      by (simp_all add: World_def)
    fix j :: nat
    assume "j < 20"
    then have "real j \<le> 19"
      by simp
    then show "dt ?w \<le> accumulator ?w - real j * dt ?w"
      by (simp add: World_def)
  qed
  then show "step_fixed ps World 10 =
           Inr (World\<lparr>time := time World + 20 * dt World,
                       accumulator := 10 - 20 * dt World\<rparr>, 20)"
    by (simp add: step_fixed_def World_def)
qed

text \<open>A frame of 3.5 ms on a fresh world takes three steps and keeps half a step.\<close>

theorem step_fixed_at_most_20_witness:
  "max_steps_per_frame (World :: unit world) = 20 \<and>
   (\<forall>v d. \<exists>v'. idle_step v d = Inr v') \<and>
   step_fixed idle_step World (35 / 10000)
     = Inr (World\<lparr>time := 3 / 1000, accumulator := 5 / 10000\<rparr>, 3) \<and>
   (0::int) \<le> 3 \<and> (3::int) \<le> 20"
proof -
  have cap: "max_steps_per_frame (World :: unit world) = 20"
    by (simp add: World_def)
  have idle: "\<forall>v d. \<exists>v'. idle_step v d = Inr v'"
    by (simp add: idle_step_def)
  have ret: "step_fixed idle_step World (35 / 10000)
               = Inr (World\<lparr>time := 3 / 1000, accumulator := 5 / 10000\<rparr>, 3)"
    by (simp add: step_fixed_def step_fixed_loop.simps step_def World_def)
  show ?thesis
    using cap idle ret step_fixed_at_most_20 [OF cap, of idle_step "35 / 10000"]
    by blast
qed

text \<open>
  Claim C3 after a capped frame. On a fresh world \<open>step_fixed 10\<close> stops at the cap of 20
  steps and keeps 9.98 s in the accumulator: the interpolation alpha is then 9980, far
  outside \<open>[0, 1)\<close>.
\<close>

theorem interpolation_alpha_after_capped_frame:
  "step_fixed idle_step World 10
     = Inr (World\<lparr>time := 20 / 1000, accumulator := 998 / 100\<rparr>, 20) \<and>
   get_interpolation_alpha ((World :: unit world)\<lparr>time := 20 / 1000, accumulator := 998 / 100\<rparr>)
     = 9980 \<and>
   \<not> get_interpolation_alpha ((World :: unit world)\<lparr>time := 20 / 1000, accumulator := 998 / 100\<rparr>)
       < 1"
proof -
  have cap: "max_steps_per_frame (World :: unit world) = 20"
    by (simp add: World_def)
  have "step_fixed idle_step World 10
          = Inr (World\<lparr>time := time (World :: unit world) + 20 * dt (World :: unit world),
                       accumulator := 10 - 20 * dt (World :: unit world)\<rparr>, 20)"
    using step_fixed_loop_no_vehicles [of "(World :: unit world)\<lparr>accumulator := 10\<rparr>" 0 20 idle_step]
    by (simp add: step_fixed_def World_def)
  then show ?thesis
    by (simp add: World_def get_interpolation_alpha_def)
qed




subsection \<open>Suspension: the static split\<close>

lemma static_loads_value:
  assumes "wheelbase c \<noteq> 0"
  shows "calculate_static_loads c =
           Inr \<lparr>FL = total_mass c * gravity c * (cg_to_rear c / wheelbase c) / 2,
                FR = total_mass c * gravity c * (cg_to_rear c / wheelbase c) / 2,
                RL = total_mass c * gravity c * (cg_to_front c / wheelbase c) / 2,
                RR = total_mass c * gravity c * (cg_to_front c / wheelbase c) / 2\<rparr>"
  using assms
  by (simp add: calculate_static_loads_def front_weight_fraction_def rear_weight_fraction_def
      Let_def)

lemma loads_simple_at_rest:
  assumes "0 < cg_to_front c" "cg_to_front c < wheelbase c" "0 < total_mass c"
    and "0 < track_front c" "0 < track_rear c" "0 \<le> gravity c"
  shows "calculate_loads_simple c 0 0 = calculate_static_loads c"
proof -
  have wb: "0 < wheelbase c"
    using assms by linarith
  have rear: "0 < cg_to_rear c"
    using assms by (simp add: cg_to_rear_def)
  have w: "0 \<le> total_mass c * gravity c"
    using assms by simp
  have f: "0 \<le> total_mass c * gravity c * (cg_to_rear c / wheelbase c) / 2"
    using w rear wb by simp
  have r: "0 \<le> total_mass c * gravity c * (cg_to_front c / wheelbase c) / 2"
    using w assms(1) wb by simp
  have "calculate_loads_simple c 0 0 =
          Inr \<lparr>FL = max 0 (total_mass c * gravity c * (cg_to_rear c / wheelbase c) / 2),
               FR = max 0 (total_mass c * gravity c * (cg_to_rear c / wheelbase c) / 2),
               RL = max 0 (total_mass c * gravity c * (cg_to_front c / wheelbase c) / 2),
               RR = max 0 (total_mass c * gravity c * (cg_to_front c / wheelbase c) / 2)\<rparr>"
    using wb assms(4,5)
    by (simp add: calculate_loads_simple_def front_weight_fraction_def
        rear_weight_fraction_def Let_def)
  also have "\<dots> = calculate_static_loads c"
    using f r wb by (simp add: static_loads_value max_def)
  finally show ?thesis .
qed

text \<open>
  Claim C8, as the code has it. For every configuration with
  \<open>0 < cg_to_front < wheelbase\<close>, positive mass, positive tracks and a gravity that is
  not negative, the loads computed with zero longitudinal and zero lateral acceleration
  are the static loads: they add up to \<open>m * g\<close>, the front axle carries the share
  \<open>cg_to_rear / wheelbase\<close>, the rear axle \<open>cg_to_front / wheelbase\<close>, and each axle
  is split equally left and right.
\<close>

theorem loads_at_rest_sum_to_weight:
  assumes "0 < cg_to_front c" "cg_to_front c < wheelbase c" "0 < total_mass c"
    and "0 < track_front c" "0 < track_rear c" "0 \<le> gravity c"
  shows "\<exists>l. calculate_loads_simple c 0 0 = Inr l \<and>
             calculate_static_loads c = Inr l \<and>
             wheel_loads_total l = total_mass c * gravity c \<and>
             front_total l = cg_to_rear c / wheelbase c * (total_mass c * gravity c) \<and>
             rear_total l = cg_to_front c / wheelbase c * (total_mass c * gravity c) \<and>
             FL l = FR l \<and> RL l = RR l"
proof -
  have wb: "wheelbase c \<noteq> 0"
    using assms by linarith
  let ?W = "total_mass c * gravity c"
  let ?l = "\<lparr>FL = ?W * (cg_to_rear c / wheelbase c) / 2,
             FR = ?W * (cg_to_rear c / wheelbase c) / 2,
             RL = ?W * (cg_to_front c / wheelbase c) / 2,
             RR = ?W * (cg_to_front c / wheelbase c) / 2\<rparr>"
  have static: "calculate_static_loads c = Inr ?l"
    using wb by (rule static_loads_value)
  have simple: "calculate_loads_simple c 0 0 = Inr ?l"
    using loads_simple_at_rest [OF assms] static by simp
  have total: "wheel_loads_total ?l = ?W"
    using wb by (simp add: wheel_loads_total_def cg_to_rear_def field_simps)
  have front: "front_total ?l = cg_to_rear c / wheelbase c * ?W"
    by (simp add: front_total_def)
  have rear: "rear_total ?l = cg_to_front c / wheelbase c * ?W"
    by (simp add: rear_total_def)
  show ?thesis
    using simple static total front rear by (intro exI [of _ ?l]) simp
qed

theorem loads_at_rest_sum_to_weight_witness:
  "0 < cg_to_front SuspensionConfig \<and>
   cg_to_front SuspensionConfig < wheelbase SuspensionConfig \<and>
   0 < total_mass SuspensionConfig \<and> 0 < track_front SuspensionConfig \<and>
   0 < track_rear SuspensionConfig \<and> 0 \<le> gravity SuspensionConfig \<and>
   (\<exists>l. calculate_loads_simple SuspensionConfig 0 0 = Inr l \<and>
        calculate_static_loads SuspensionConfig = Inr l \<and>
        wheel_loads_total l = 1400 * (981 / 100) \<and>
        front_total l = 1 / 2 * (1400 * (981 / 100)) \<and>
        rear_total l = 1 / 2 * (1400 * (981 / 100)) \<and>
        FL l = FR l \<and> RL l = RR l)"
proof -
  have h: "0 < cg_to_front SuspensionConfig"
    "cg_to_front SuspensionConfig < wheelbase SuspensionConfig"
    "0 < total_mass SuspensionConfig" "0 < track_front SuspensionConfig"
    "0 < track_rear SuspensionConfig" "0 \<le> gravity SuspensionConfig"
    by (simp_all add: SuspensionConfig_def)
  have v: "cg_to_rear SuspensionConfig / wheelbase SuspensionConfig = 1 / 2"
    "cg_to_front SuspensionConfig / wheelbase SuspensionConfig = 1 / 2"
    "total_mass SuspensionConfig * gravity SuspensionConfig = 1400 * (981 / 100)"
    by (simp_all add: SuspensionConfig_def cg_to_rear_def)
  show ?thesis
    using h loads_at_rest_sum_to_weight [OF h] unfolding v by blast
qed

text \<open>
  Claim C8 as stated puts no condition on the configured gravity. With a negative
  gravity the wheel-lift clamp returns four zero loads, which differ from \<open>m * g\<close> by
  more than 1 N.
\<close>

theorem loads_at_rest_negative_gravity_counterexample:
  "calculate_loads_simple (SuspensionConfig\<lparr>gravity := - (981 / 100)\<rparr>) 0 0
     = Inr \<lparr>FL = 0, FR = 0, RL = 0, RR = 0\<rparr> \<and>
   \<not> \<bar>wheel_loads_total \<lparr>FL = 0, FR = 0, RL = 0, RR = 0\<rparr>
        - total_mass (SuspensionConfig\<lparr>gravity := - (981 / 100)\<rparr>)
          * gravity (SuspensionConfig\<lparr>gravity := - (981 / 100)\<rparr>)\<bar> \<le> 1"
  by (simp add: calculate_loads_simple_def front_weight_fraction_def rear_weight_fraction_def
      SuspensionConfig_def cg_to_rear_def wheel_loads_total_def Let_def)

end
